theory Spec2Isabelle
  imports Complex_Main
begin

section \<open>Modulation spectroscopy: the simulation pass of \<open>Widget.update\<close>\<close>

text \<open>
  The source is one Python method, \<open>Widget.update\<close> of ModulationSpectroscopy.py, which reads
  six slider values and the scheme selector, builds four closures (\<open>absorption\<close>, \<open>laser\<close>,
  \<open>FMerrorsig\<close>, \<open>TTFMS\<close>) and hands five data sets to the plot curves.

  Numbers. The source computes in IEEE doubles. The model idealises them: a finite double is
  a \<open>real\<close>, arithmetic on finite values is exact (no rounding, no overflow, no signed zero),
  and the special values that numpy produces instead of raising are kept as constructors of
  \<open>npfloat\<close>. The slider values are Python floats and the grids of \<open>np.linspace\<close> are finite,
  so both are \<open>real\<close>.
\<close>

subsection \<open>numpy values\<close>

datatype npfloat = Fin real | PInf | NInf | NaN

fun np_neg :: "npfloat \<Rightarrow> npfloat" where
  "np_neg (Fin a) = Fin (- a)"
| "np_neg PInf = NInf"
| "np_neg NInf = PInf"
| "np_neg NaN = NaN"

fun np_add :: "npfloat \<Rightarrow> npfloat \<Rightarrow> npfloat" where
  "np_add (Fin a) (Fin b) = Fin (a + b)"
| "np_add NaN _ = NaN"
| "np_add _ NaN = NaN"
| "np_add PInf NInf = NaN"
| "np_add NInf PInf = NaN"
| "np_add PInf _ = PInf"
| "np_add _ PInf = PInf"
| "np_add NInf _ = NInf"
| "np_add _ NInf = NInf"

definition np_sub :: "npfloat \<Rightarrow> npfloat \<Rightarrow> npfloat" where
  "np_sub a b = np_add a (np_neg b)"

text \<open>An infinity times a finite value: zero gives nan, otherwise the signs multiply.\<close>

definition inf_times :: "bool \<Rightarrow> real \<Rightarrow> npfloat" where
  "inf_times positive b =
     (if b = 0 then NaN else if (0 < b) = positive then PInf else NInf)"

fun np_mul :: "npfloat \<Rightarrow> npfloat \<Rightarrow> npfloat" where
  "np_mul (Fin a) (Fin b) = Fin (a * b)"
| "np_mul NaN _ = NaN"
| "np_mul _ NaN = NaN"
| "np_mul PInf (Fin b) = inf_times True b"
| "np_mul NInf (Fin b) = inf_times False b"
| "np_mul (Fin a) PInf = inf_times True a"
| "np_mul (Fin a) NInf = inf_times False a"
| "np_mul PInf PInf = PInf"
| "np_mul PInf NInf = NInf"
| "np_mul NInf PInf = NInf"
| "np_mul NInf NInf = PInf"

text \<open>
  numpy's true division of an array by a float does not raise on a zero divisor: it warns
  and stores \<open>\<plusminus>inf\<close>, or \<open>nan\<close> for \<open>0/0\<close>. The only variable divisor of the source is
  \<open>2*gamma**2\<close>, whose zero is \<open>+0.0\<close>, so the sign of the quotient is that of the dividend.
\<close>

fun np_div :: "npfloat \<Rightarrow> npfloat \<Rightarrow> npfloat" where
  "np_div (Fin a) (Fin b) =
     (if b = 0 then (if a = 0 then NaN else if 0 < a then PInf else NInf)
      else Fin (a / b))"
| "np_div NaN _ = NaN"
| "np_div _ NaN = NaN"
| "np_div (Fin a) _ = Fin 0"
| "np_div PInf (Fin b) = (if 0 \<le> b then PInf else NInf)"
| "np_div NInf (Fin b) = (if 0 \<le> b then NInf else PInf)"
| "np_div _ _ = NaN"

fun np_exp :: "npfloat \<Rightarrow> npfloat" where
  "np_exp (Fin a) = Fin (exp a)"
| "np_exp PInf = PInf"
| "np_exp NInf = Fin 0"
| "np_exp NaN = NaN"

text \<open>\<open>a ** 2\<close> on an array is the elementwise square.\<close>

definition np_square :: "npfloat \<Rightarrow> npfloat" where
  "np_square a = np_mul a a"

text \<open>
  An operator between two arrays of one shape works element by element; between a Python
  float and an array, the float is broadcast, written here as \<open>map (op (Fin c))\<close>.
\<close>

definition elementwise :: "('a \<Rightarrow> 'a \<Rightarrow> 'a) \<Rightarrow> 'a list \<Rightarrow> 'a list \<Rightarrow> 'a list" where
  "elementwise f xs ys = map (\<lambda>(a, b). f a b) (zip xs ys)"

text \<open>
  \<open>np.linspace(start, stop, num)\<close> with the endpoint included: \<open>num\<close> samples,
  \<open>step = (stop - start) / (num - 1)\<close>, sample \<open>i\<close> is \<open>start + i * step\<close>.
\<close>

definition linspace :: "real \<Rightarrow> real \<Rightarrow> nat \<Rightarrow> real list" where
  "linspace start stop num =
     map (\<lambda>i. start + real i * ((stop - start) / real (num - 1))) [0..<num]"

subsection \<open>The widget\<close>

text \<open>The three entries of the combo box \<open>c1\<close>, in the order they are added.\<close>

datatype scheme = Frequency_Modulation | Two_Tone_Frequency_Modulation | FM_and_TTFMS

text \<open>
  What \<open>update\<close> reads: \<open>w1.x\<close> .. \<open>w6.x\<close> (Gamma, Mod Freq 1, Mod Freq 2, Laser Freq,
  Mod Index 1, Mod Index 2) and \<open>c1.currentText()\<close>.
\<close>

record widget =
  w1 :: real
  w2 :: real
  w3 :: real
  w4 :: real
  w5 :: real
  w6 :: real
  c1 :: scheme

text \<open>The argument of a curve's \<open>setData\<close>: x and y data, or y data alone.\<close>

datatype 'a plotdata = XY "real list" "'a list" | Y "'a list"

fun ydata :: "'a plotdata \<Rightarrow> 'a list" where
  "ydata (XY xs ys) = ys"
| "ydata (Y ys) = ys"

subsection \<open>The closures of \<open>update\<close>\<close>

text \<open>
  \<open>absorption = lambda val: 1-0.5*np.exp(-(flaser+val)**2/(2*gamma**2))\<close>, with
  \<open>gamma = w1.x\<close> and \<open>flaser = w4.x\<close>. \<open>**\<close> binds tighter than the unary minus, which binds
  tighter than \<open>/\<close>; the divisor \<open>2*gamma**2\<close> is a Python float.
\<close>

definition absorption :: "widget \<Rightarrow> npfloat list \<Rightarrow> npfloat list" where
  "absorption s val =
     (let gamma = w1 s; flaser = w4 s;
          sq = map np_square (map (np_add (Fin flaser)) val);
          quot = map (\<lambda>n. np_div n (Fin (2 * gamma ^ 2))) (map np_neg sq)
      in map (np_sub (Fin 1)) (map (np_mul (Fin 0.5)) (map np_exp quot)))"

text \<open>
  \<open>FMerrorsig = lambda val:(M1/2)*absorption(val)*(absorption(val-fmfmod)-absorption(val+fmfmod))\<close>.
  The closure reads the variable \<open>fmfmod\<close> of \<open>update\<close> when it is called, not when it is
  built, so the value \<open>fmfmod\<close> has at the call is an argument here.
\<close>

definition FMerrorsig :: "widget \<Rightarrow> real \<Rightarrow> npfloat list \<Rightarrow> npfloat list" where
  "FMerrorsig s fmfmod val =
     (let M1 = w5 s
      in elementwise np_mul
           (map (np_mul (Fin (M1 / 2))) (absorption s val))
           (elementwise np_sub
              (absorption s (map (\<lambda>v. np_sub v (Fin fmfmod)) val))
              (absorption s (map (\<lambda>v. np_add v (Fin fmfmod)) val))))"

text \<open>
  \<open>TTFMS = lambda val:(M1/2)*(M2/2)*(absorption(val-fmod1)*absorption(val-fmod2)
  +absorption(val+fmod1)*absorption(val+fmod2)-2*absorption(val)**2)\<close>.
\<close>

definition TTFMS :: "widget \<Rightarrow> npfloat list \<Rightarrow> npfloat list" where
  "TTFMS s val =
     (let fmod1 = w2 s; fmod2 = w3 s; M1 = w5 s; M2 = w6 s;
          minus = elementwise np_mul
                    (absorption s (map (\<lambda>v. np_sub v (Fin fmod1)) val))
                    (absorption s (map (\<lambda>v. np_sub v (Fin fmod2)) val));
          plus = elementwise np_mul
                   (absorption s (map (\<lambda>v. np_add v (Fin fmod1)) val))
                   (absorption s (map (\<lambda>v. np_add v (Fin fmod2)) val));
          centre = map (np_mul (Fin 2)) (map np_square (absorption s val))
      in map (np_mul (Fin ((M1 / 2) * (M2 / 2))))
           (elementwise np_sub (elementwise np_add minus plus) centre))"

text \<open>
  \<open>laser = lambda val:(np.cos(flaser*t*np.pi/180)*np.cos(M1*np.sin(fmod1*t*np.pi/180))
  *np.cos(M2*np.sin(fmod2*t*np.pi/180)))\<close> with \<open>t = np.linspace(0,1000,1000)\<close>. The body
  never mentions \<open>val\<close>. Nothing on this path divides by a variable, so its values stay finite
  and are reals.
\<close>

text \<open>
  The argument \<open>f*t*np.pi/180\<close> that occurs three times in \<open>laser\<close>, for a float \<open>f\<close> and
  the array \<open>t\<close>, evaluated from left to right.
\<close>

definition degrees :: "real \<Rightarrow> real list \<Rightarrow> real list" where
  "degrees f t = map (\<lambda>v. v / 180) (map (\<lambda>v. v * pi) (map (\<lambda>v. f * v) t))"

definition laser :: "widget \<Rightarrow> 'a \<Rightarrow> real list" where
  "laser s val =
     (let fmod1 = w2 s; fmod2 = w3 s; flaser = w4 s; M1 = w5 s; M2 = w6 s;
          t = linspace 0 1000 1000
      in elementwise (*)
           (elementwise (*)
              (map cos (degrees flaser t))
              (map cos (map (\<lambda>v. M1 * v) (map sin (degrees fmod1 t)))))
           (map cos (map (\<lambda>v. M2 * v) (map sin (degrees fmod2 t)))))"

text \<open>
  Modelled from the spec: \<open>fft\<close> is imported from \<open>scipy.fftpack\<close> and its code is not under
  src/. The spec (4.4) says what the transform computes: entry \<open>k\<close> of the result is
  \<open>\<Sum>j. E(t_j) * exp(-2\<pi>i*j*k/N)\<close> for an input of length \<open>N\<close>. The magnitude \<open>abs(...)\<close>
  is taken by the source itself, in \<open>update\<close>.
\<close>

definition fft :: "real list \<Rightarrow> complex list" where
  "fft ys =
     (let N = length ys
      in map (\<lambda>k. sum_list (map (\<lambda>(j, v). complex_of_real v *
                        exp (- (2 * complex_of_real pi * \<i> * of_nat j * of_nat k / of_nat N)))
                      (enumerate 0 ys)))
           [0..<N])"

subsection \<open>\<open>Widget.update\<close>\<close>

text \<open>
  The error kind of the spec. The source never raises it, and the array arithmetic is
  numpy's, which warns on a zero divisor and goes on with \<open>inf\<close> or \<open>nan\<close>. One statement
  can raise in doubles: \<open>gamma**2\<close> is a power of a Python float and raises OverflowError
  once \<open>|gamma|\<close> exceeds about \<open>1.34e154\<close>. The reals of the model have no overflow, so
  that failure is outside the model, and nothing below is claimed about raising for such
  values; \<open>gamma = 0\<close> is far from them (\<open>0.0**2\<close> is \<open>0.0\<close>).
\<close>

datatype error = InvalidParameter

text \<open>The data of the five plot curves after \<open>update\<close>.\<close>

record curves =
  curve1 :: "npfloat plotdata"
  curve2 :: "npfloat plotdata"
  curve2b :: "npfloat plotdata"
  curve3 :: "real plotdata"
  curve4 :: "real plotdata"

text \<open>
  \<open>fmfmod\<close> starts as \<open>w2.x\<close> and is reassigned to \<open>fmod1-fmod2\<close> in the third branch only,
  before \<open>FMerrorsig\<close> is called there. The error curves are plotted against \<open>x1\<close>, and
  computed over \<open>x\<close>. \<open>laser\<close> is called with \<open>x\<close>.
\<close>

definition update :: "widget \<Rightarrow> error + curves" where
  "update s =
     (let fmfmod = w2 s; fmod1 = w2 s; fmod2 = w3 s;
          x = map Fin (linspace (- 10000) 10000 1000);
          x1 = linspace 0 10000 1000;
          (c2, c2b) =
            (case c1 s of
               Frequency_Modulation \<Rightarrow> (XY x1 (FMerrorsig s fmfmod x), Y [Fin 0])
             | Two_Tone_Frequency_Modulation \<Rightarrow> (XY x1 (TTFMS s x), Y [Fin 0])
             | FM_and_TTFMS \<Rightarrow>
                 (let fmfmod = fmod1 - fmod2
                  in (XY x1 (FMerrorsig s fmfmod x), XY x1 (TTFMS s x))))
      in Inr \<lparr>curve1 = XY x1 (absorption s x),
              curve2 = c2,
              curve2b = c2b,
              curve3 = Y (map cmod (fft (laser s x))),
              curve4 = Y (laser s x)\<rparr>)"

subsection \<open>The formulas of the spec\<close>

text \<open>
  SimulationParameters of the spec are the six slider values: lineWidth is \<open>w1\<close>, modFreq1
  \<open>w2\<close>, modFreq2 \<open>w3\<close>, laserFreq \<open>w4\<close>, modIndex1 \<open>w5\<close>, modIndex2 \<open>w6\<close>. The definitions
  below follow the spec's words, over the reals, to be compared with the closures above.
\<close>

abbreviation lineWidth :: "widget \<Rightarrow> real" where "lineWidth \<equiv> w1"
abbreviation modFreq1 :: "widget \<Rightarrow> real" where "modFreq1 \<equiv> w2"
abbreviation modFreq2 :: "widget \<Rightarrow> real" where "modFreq2 \<equiv> w3"
abbreviation laserFreq :: "widget \<Rightarrow> real" where "laserFreq \<equiv> w4"
abbreviation modIndex1 :: "widget \<Rightarrow> real" where "modIndex1 \<equiv> w5"
abbreviation modIndex2 :: "widget \<Rightarrow> real" where "modIndex2 \<equiv> w6"

text \<open>4.1: \<open>T(\<omega>) = 1 - 0.5 * exp(-(laserFreq + \<omega>)\<^sup>2 / (2 * lineWidth\<^sup>2))\<close>.\<close>

definition spec_T :: "widget \<Rightarrow> real \<Rightarrow> real" where
  "spec_T p \<omega> = 1 - 0.5 * exp (- (laserFreq p + \<omega>)\<^sup>2 / (2 * (lineWidth p)\<^sup>2))"

text \<open>
  4.3: \<open>errorFM(\<omega>) = (modIndex1/2) * T(\<omega>) * [T(\<omega> - m) - T(\<omega> + m)]\<close>, where the shift \<open>m\<close>
  is modFreq1, or what is substituted for it.
\<close>

definition spec_errorFM :: "widget \<Rightarrow> real \<Rightarrow> real \<Rightarrow> real" where
  "spec_errorFM p m \<omega> =
     (modIndex1 p / 2) * spec_T p \<omega> * (spec_T p (\<omega> - m) - spec_T p (\<omega> + m))"

text \<open>
  4.3: \<open>errorTTFMS(\<omega>) = (modIndex1/2) * (modIndex2/2) * [T(\<omega>-modFreq1) * T(\<omega>-modFreq2)
  + T(\<omega>+modFreq1) * T(\<omega>+modFreq2) - 2 * T(\<omega>)\<^sup>2]\<close>.
\<close>

definition spec_errorTTFMS :: "widget \<Rightarrow> real \<Rightarrow> real" where
  "spec_errorTTFMS p \<omega> =
     (modIndex1 p / 2) * (modIndex2 p / 2) *
       (spec_T p (\<omega> - modFreq1 p) * spec_T p (\<omega> - modFreq2 p)
        + spec_T p (\<omega> + modFreq1 p) * spec_T p (\<omega> + modFreq2 p)
        - 2 * (spec_T p \<omega>)\<^sup>2)"

text \<open>
  4.2: \<open>E(t) = cos(laserFreq*t*\<pi>/180) * cos(modIndex1 * sin(modFreq1*t*\<pi>/180))
  * cos(modIndex2 * sin(modFreq2*t*\<pi>/180))\<close>.
\<close>

definition spec_E :: "widget \<Rightarrow> real \<Rightarrow> real" where
  "spec_E p t =
     cos (laserFreq p * t * pi / 180)
     * cos (modIndex1 p * sin (modFreq1 p * t * pi / 180))
     * cos (modIndex2 p * sin (modFreq2 p * t * pi / 180))"

text \<open>4.4: entry \<open>k\<close> of the magnitude spectrum, \<open>|\<Sum>j. E(t_j) * exp(-2\<pi>i*j*k/N)|\<close>.\<close>

definition spec_magnitude :: "real list \<Rightarrow> nat \<Rightarrow> real" where
  "spec_magnitude ys k =
     cmod (\<Sum>j<length ys. complex_of_real (ys ! j) *
             exp (- (2 * complex_of_real pi * \<i> * of_nat j * of_nat k / of_nat (length ys))))"

text \<open>The two grids of \<open>update\<close>.\<close>

definition DetuningGrid :: "real list" where
  "DetuningGrid = linspace (- 10000) 10000 1000"

definition TimeGrid :: "real list" where
  "TimeGrid = linspace 0 1000 1000"

text \<open>
  The concrete scenario of the spec (section 8): lineWidth 10, modFreq1 5, modFreq2 3,
  laserFreq 70, both modulation indices 1, scheme FrequencyModulation; and the same
  parameters with lineWidth 0.
\<close>

definition scenario :: widget where
  "scenario = \<lparr>w1 = 10, w2 = 5, w3 = 3, w4 = 70, w5 = 1, w6 = 1, c1 = Frequency_Modulation\<rparr>"

definition zero_width :: widget where
  "zero_width = scenario\<lparr>w1 := 0\<rparr>"

section \<open>Properties\<close>

subsection \<open>Arrays\<close>

lemma elementwise_map:
  "elementwise f (map g xs) (map h xs) = map (\<lambda>x. f (g x) (h x)) xs"
  by (simp add: elementwise_def zip_map_map zip_same_conv_map)

lemma length_linspace: "length (linspace a b n) = n"
  by (simp add: linspace_def)

subsection \<open>The closures on finite values\<close>

lemma absorption_Fin:
  assumes "w1 s \<noteq> 0"
  shows "absorption s (map (\<lambda>\<omega>. Fin (g \<omega>)) ws) = map (\<lambda>\<omega>. Fin (spec_T s (g \<omega>))) ws"
  using assms
  by (simp add: absorption_def Let_def comp_def spec_T_def np_square_def np_sub_def
      power2_eq_square)

lemma FMerrorsig_Fin:
  assumes "w1 s \<noteq> 0"
  shows "FMerrorsig s m (map Fin ws) = map (\<lambda>\<omega>. Fin (spec_errorFM s m \<omega>)) ws"
  unfolding FMerrorsig_def Let_def
  by (simp add: comp_def np_sub_def absorption_Fin [OF assms] elementwise_map
      spec_errorFM_def)

lemma TTFMS_Fin:
  assumes "w1 s \<noteq> 0"
  shows "TTFMS s (map Fin ws) = map (\<lambda>\<omega>. Fin (spec_errorTTFMS s \<omega>)) ws"
  unfolding TTFMS_def Let_def
  by (simp add: comp_def np_sub_def np_square_def absorption_Fin [OF assms] elementwise_map
      spec_errorTTFMS_def power2_eq_square)

lemma update_curve1: "\<exists>r. update p = Inr r \<and> curve1 r = XY (linspace 0 10000 1000) (absorption p (map Fin DetuningGrid))"
  by (simp add: update_def Let_def DetuningGrid_def split: scheme.split)

lemma update_FM:
  "c1 p = Frequency_Modulation \<Longrightarrow> \<exists>r. update p = Inr r \<and>
     curve2 r = XY (linspace 0 10000 1000) (FMerrorsig p (w2 p) (map Fin DetuningGrid)) \<and>
     curve2b r = Y [Fin 0]"
  by (simp add: update_def Let_def DetuningGrid_def)

lemma update_TT:
  "c1 p = Two_Tone_Frequency_Modulation \<Longrightarrow> \<exists>r. update p = Inr r \<and>
     curve2 r = XY (linspace 0 10000 1000) (TTFMS p (map Fin DetuningGrid)) \<and>
     curve2b r = Y [Fin 0]"
  by (simp add: update_def Let_def DetuningGrid_def)

lemma update_both:
  "c1 p = FM_and_TTFMS \<Longrightarrow> \<exists>r. update p = Inr r \<and>
     curve2 r = XY (linspace 0 10000 1000) (FMerrorsig p (w2 p - w3 p) (map Fin DetuningGrid)) \<and>
     curve2b r = XY (linspace 0 10000 1000) (TTFMS p (map Fin DetuningGrid))"
  by (simp add: update_def Let_def DetuningGrid_def)

subsection \<open>Claims about the absorption path\<close>

text \<open>
  C3. For lineWidth > 0 and every finite offset \<open>\<omega>\<close>, \<open>absorption\<close> returns exactly
  \<open>T(\<omega>) = 1 - 0.5 * exp(-(laserFreq + \<omega>)\<^sup>2 / (2 * lineWidth\<^sup>2))\<close>: on one value (an array of
  one element), on every array element by element, and so on the absorption curve that
  \<open>update\<close> plots.
\<close>

theorem absorption_transmission:
  assumes "0 < lineWidth p"
  shows "absorption p [Fin \<omega>] = [Fin (spec_T p \<omega>)]
       \<and> absorption p (map Fin \<omega>s) = map (\<lambda>\<omega>. Fin (spec_T p \<omega>)) \<omega>s
       \<and> (\<exists>r. update p = Inr r
              \<and> ydata (curve1 r) = map (\<lambda>\<omega>. Fin (spec_T p \<omega>)) DetuningGrid)"
proof -
  have nz: "w1 p \<noteq> 0" using assms by simp
  have arr: "absorption p (map Fin ws) = map (\<lambda>\<omega>. Fin (spec_T p \<omega>)) ws" for ws
    using absorption_Fin [OF nz, of "\<lambda>\<omega>. \<omega>" ws] by simp
  have one: "absorption p [Fin \<omega>] = [Fin (spec_T p \<omega>)]"
    using arr [of "[\<omega>]"] by simp
  obtain r where "update p = Inr r"
    and "curve1 r = XY (linspace 0 10000 1000) (absorption p (map Fin DetuningGrid))"
    using update_curve1 by blast
  then have "update p = Inr r \<and> ydata (curve1 r) = map (\<lambda>\<omega>. Fin (spec_T p \<omega>)) DetuningGrid"
    by (simp add: arr)
  then show ?thesis using one arr by blast
qed

theorem absorption_transmission_witness:
  "0 < lineWidth scenario \<and> absorption scenario [Fin (- 70)] = [Fin (1 / 2)]"
  using absorption_transmission [of scenario "- 70" "[]"]
  by (simp add: scenario_def spec_T_def)

text \<open>
  C4. Under the scheme FrequencyModulation the error curve is
  \<open>errorFM(\<omega>) = (modIndex1/2) * T(\<omega>) * [T(\<omega> - modFreq1) - T(\<omega> + modFreq1)]\<close> at every
  detuning \<open>\<omega>\<close>: \<open>FMerrorsig\<close> with the shift \<open>modFreq1\<close> computes it on any array, and the
  curve \<open>curve2\<close> of \<open>update\<close> holds it over the detuning grid.
\<close>

theorem FM_error_curve:
  assumes "0 < lineWidth p" and "c1 p = Frequency_Modulation"
  shows "FMerrorsig p (modFreq1 p) (map Fin \<omega>s)
           = map (\<lambda>\<omega>. Fin (spec_errorFM p (modFreq1 p) \<omega>)) \<omega>s
       \<and> (\<exists>r. update p = Inr r
              \<and> ydata (curve2 r) = map (\<lambda>\<omega>. Fin (spec_errorFM p (modFreq1 p) \<omega>)) DetuningGrid)"
proof -
  have nz: "w1 p \<noteq> 0" using assms(1) by simp
  obtain r where "update p = Inr r"
    and "curve2 r = XY (linspace 0 10000 1000) (FMerrorsig p (w2 p) (map Fin DetuningGrid))"
    using update_FM [OF assms(2)] by blast
  then have "update p = Inr r
      \<and> ydata (curve2 r) = map (\<lambda>\<omega>. Fin (spec_errorFM p (modFreq1 p) \<omega>)) DetuningGrid"
    by (simp add: FMerrorsig_Fin [OF nz])
  then show ?thesis using FMerrorsig_Fin [OF nz] by blast
qed

theorem FM_error_curve_witness:
  "0 < lineWidth scenario \<and> c1 scenario = Frequency_Modulation
   \<and> FMerrorsig scenario (modFreq1 scenario) [Fin (- 70), Fin (- 65)]
       = [Fin 0, Fin ((1 / 2) * (1 - exp (- (1 / 8)) / 2) * ((1 / 2) - (1 - exp (- (1 / 2)) / 2)))]"
  using FM_error_curve [of scenario "[- 70, - 65]"]
  by (simp add: scenario_def spec_errorFM_def spec_T_def)

text \<open>
  C5. Under the scheme TwoToneFrequencyModulation the error curve is
  \<open>errorTTFMS(\<omega>) = (modIndex1/2) * (modIndex2/2) * [T(\<omega>-modFreq1) * T(\<omega>-modFreq2)
  + T(\<omega>+modFreq1) * T(\<omega>+modFreq2) - 2 * T(\<omega>)\<^sup>2]\<close> at every detuning \<open>\<omega>\<close>.
\<close>

theorem TTFMS_error_curve:
  assumes "0 < lineWidth p" and "c1 p = Two_Tone_Frequency_Modulation"
  shows "TTFMS p (map Fin \<omega>s) = map (\<lambda>\<omega>. Fin (spec_errorTTFMS p \<omega>)) \<omega>s
       \<and> (\<exists>r. update p = Inr r
              \<and> ydata (curve2 r) = map (\<lambda>\<omega>. Fin (spec_errorTTFMS p \<omega>)) DetuningGrid)"
proof -
  have nz: "w1 p \<noteq> 0" using assms(1) by simp
  obtain r where "update p = Inr r"
    and "curve2 r = XY (linspace 0 10000 1000) (TTFMS p (map Fin DetuningGrid))"
    using update_TT [OF assms(2)] by blast
  then have "update p = Inr r
      \<and> ydata (curve2 r) = map (\<lambda>\<omega>. Fin (spec_errorTTFMS p \<omega>)) DetuningGrid"
    by (simp add: TTFMS_Fin [OF nz])
  then show ?thesis using TTFMS_Fin [OF nz] by blast
qed

theorem TTFMS_error_curve_witness:
  "0 < lineWidth (scenario\<lparr>c1 := Two_Tone_Frequency_Modulation\<rparr>)
   \<and> c1 (scenario\<lparr>c1 := Two_Tone_Frequency_Modulation\<rparr>) = Two_Tone_Frequency_Modulation
   \<and> TTFMS (scenario\<lparr>c1 := Two_Tone_Frequency_Modulation\<rparr>) [Fin (- 70)]
       = [Fin ((1 / 4) * (2 * ((1 - exp (- (1 / 8)) / 2) * (1 - exp (- (9 / 200)) / 2)) - 1 / 2))]"
  using TTFMS_error_curve [of "scenario\<lparr>c1 := Two_Tone_Frequency_Modulation\<rparr>" "[- 70]"]
  by (simp add: scenario_def spec_errorTTFMS_def spec_T_def power2_eq_square)


subsection \<open>Claims about the synthesized field\<close>

lemma spec_E_degrees:
  "elementwise (*)
     (elementwise (*)
        (map cos (degrees a t))
        (map cos (map (\<lambda>v. m1 * v) (map sin (degrees f1 t)))))
     (map cos (map (\<lambda>v. m2 * v) (map sin (degrees f2 t))))
   = map (\<lambda>t. cos (a * t * pi / 180) * cos (m1 * sin (f1 * t * pi / 180))
                * cos (m2 * sin (f2 * t * pi / 180))) t"
  by (simp add: degrees_def comp_def elementwise_map)

lemma laser_spec_E: "laser p val = map (spec_E p) TimeGrid"
  unfolding laser_def Let_def spec_E_degrees TimeGrid_def
  by (rule map_cong) (simp_all add: spec_E_def)

lemma update_laser:
  "\<exists>r. update p = Inr r \<and> curve4 r = Y (laser p (map Fin DetuningGrid))
       \<and> curve3 r = Y (map cmod (fft (laser p (map Fin DetuningGrid))))"
  by (simp add: update_def Let_def DetuningGrid_def split: scheme.split)

text \<open>
  C6. For every time sample \<open>t\<close> of the time grid, \<open>laser\<close> returns
  \<open>E(t) = cos(laserFreq*t*\<pi>/180) * cos(modIndex1 * sin(modFreq1*t*\<pi>/180))
  * cos(modIndex2 * sin(modFreq2*t*\<pi>/180))\<close>, every angle scaled by \<open>\<pi>/180\<close>; the
  time-domain curve of \<open>update\<close> is this list.
\<close>

theorem laser_field:
  "laser p val = map (spec_E p) TimeGrid
   \<and> length (laser p val) = 1000
   \<and> (\<exists>r. update p = Inr r \<and> curve4 r = Y (map (spec_E p) TimeGrid))"
proof -
  obtain r where "update p = Inr r" and "curve4 r = Y (laser p (map Fin DetuningGrid))"
    using update_laser by blast
  then have "update p = Inr r \<and> curve4 r = Y (map (spec_E p) TimeGrid)"
    by (simp add: laser_spec_E)
  then show ?thesis
    by (auto simp add: laser_spec_E TimeGrid_def length_linspace)
qed

text \<open>
  C10. The synthesized field does not depend on the argument \<open>laser\<close> is called with:
  \<open>laser(a) = laser(b)\<close> for all \<open>a\<close> and \<open>b\<close>, of any types, because whatever the argument
  the result is \<open>E\<close> sampled over the fixed time grid of 1000 points \<open>i * 1000/999\<close>. So the
  time-domain curve of \<open>update\<close>, which passes the detuning array, is \<open>E\<close> over the time
  grid, and the spectrum curve is the magnitude transform of that list.
\<close>

theorem laser_ignores_argument:
  "laser p a = laser p b
   \<and> laser p a = map (spec_E p) TimeGrid
   \<and> TimeGrid = map (\<lambda>i. real i * (1000 / 999)) [0..<1000]
   \<and> (\<exists>r. update p = Inr r
          \<and> curve4 r = Y (map (spec_E p) TimeGrid)
          \<and> curve3 r = Y (map cmod (fft (map (spec_E p) TimeGrid))))"
proof -
  have field: "laser p x = map (spec_E p) TimeGrid" for x :: 'x
    by (rule laser_spec_E)
  have grid: "TimeGrid = map (\<lambda>i. real i * (1000 / 999)) [0..<1000]"
    by (simp add: TimeGrid_def linspace_def)
  obtain r where "update p = Inr r" and "curve4 r = Y (laser p (map Fin DetuningGrid))"
      and "curve3 r = Y (map cmod (fft (laser p (map Fin DetuningGrid))))"
    using update_laser by blast
  then have "update p = Inr r \<and> curve4 r = Y (map (spec_E p) TimeGrid)
      \<and> curve3 r = Y (map cmod (fft (map (spec_E p) TimeGrid)))"
    by (simp add: field)
  moreover have "laser p a = laser p b"
    by (simp add: field)
  ultimately show ?thesis using field [of a] grid by blast
qed

subsection \<open>Antisymmetry of the single-tone error signal\<close>

lemma spec_T_mirror:
  assumes "laserFreq p = 0"
  shows "spec_T p (- \<omega>) = spec_T p \<omega>"
  using assms by (simp add: spec_T_def)

lemma spec_errorFM_odd:
  assumes "laserFreq p = 0"
  shows "spec_errorFM p m (- \<omega>) = - spec_errorFM p m \<omega>"
proof -
  have a: "spec_T p (- \<omega> - m) = spec_T p (\<omega> + m)"
    using spec_T_mirror [OF assms, of "\<omega> + m"] by (simp add: algebra_simps)
  have b: "spec_T p (- \<omega> + m) = spec_T p (\<omega> - m)"
    using spec_T_mirror [OF assms, of "\<omega> - m"] by (simp add: algebra_simps)
  show ?thesis
    unfolding spec_errorFM_def a b spec_T_mirror [OF assms]
    by (simp add: algebra_simps)
qed

text \<open>
  C7. For laserFreq = 0, lineWidth > 0 and every modFreq1, modIndex1 and detuning \<open>\<omega>\<close>, the
  single-tone error signal is antisymmetric about 0: \<open>errorFM(\<omega>) = -errorFM(-\<omega>)\<close>.
\<close>

theorem FM_error_antisymmetric:
  assumes "laserFreq p = 0" and "0 < lineWidth p"
  shows "FMerrorsig p (modFreq1 p) [Fin \<omega>]
           = map np_neg (FMerrorsig p (modFreq1 p) [Fin (- \<omega>)])
       \<and> FMerrorsig p (modFreq1 p) (map Fin \<omega>s)
           = map np_neg (FMerrorsig p (modFreq1 p) (map Fin (map uminus \<omega>s)))"
proof -
  have nz: "w1 p \<noteq> 0" using assms(2) by simp
  have arr: "FMerrorsig p (modFreq1 p) (map Fin ws)
           = map np_neg (FMerrorsig p (modFreq1 p) (map Fin (map uminus ws)))" for ws
    unfolding FMerrorsig_Fin [OF nz]
    by (simp add: comp_def spec_errorFM_odd [OF assms(1)])
  show ?thesis using arr [of "[\<omega>]"] arr [of \<omega>s] by simp
qed

theorem FM_error_antisymmetric_witness:
  "laserFreq (scenario\<lparr>w4 := 0\<rparr>) = 0 \<and> 0 < lineWidth (scenario\<lparr>w4 := 0\<rparr>)
   \<and> FMerrorsig (scenario\<lparr>w4 := 0\<rparr>) 5 [Fin 5] = map np_neg (FMerrorsig (scenario\<lparr>w4 := 0\<rparr>) 5 [Fin (- 5)])
   \<and> FMerrorsig (scenario\<lparr>w4 := 0\<rparr>) 5 [Fin 5]
       = [Fin ((1 / 2) * (1 - exp (- (1 / 8)) / 2) * (1 / 2 - (1 - exp (- (1 / 2)) / 2)))]"
  using FM_error_antisymmetric [of "scenario\<lparr>w4 := 0\<rparr>" 5 "[]"]
    FMerrorsig_Fin [of "scenario\<lparr>w4 := 0\<rparr>" 5 "[5]"]
  by (simp add: scenario_def spec_errorFM_def spec_T_def)

subsection \<open>The second error curve\<close>

text \<open>
  C8. Under the schemes FrequencyModulation and TwoToneFrequencyModulation the second error
  curve \<open>curve2b\<close> is set to a sequence of exactly one sample, zero; it is not empty.
\<close>

theorem unused_second_curve:
  assumes "c1 p = Frequency_Modulation \<or> c1 p = Two_Tone_Frequency_Modulation"
  shows "\<exists>r. update p = Inr r \<and> curve2b r = Y [Fin 0] \<and> length (ydata (curve2b r)) = 1"
  using assms update_FM [of p] update_TT [of p] by auto

theorem unused_second_curve_witness:
  "(c1 scenario = Frequency_Modulation \<or> c1 scenario = Two_Tone_Frequency_Modulation)
   \<and> (\<exists>r. update scenario = Inr r \<and> curve2b r = Y [Fin 0])"
  using unused_second_curve [of scenario] by (auto simp add: scenario_def)


subsection \<open>The magnitude spectrum\<close>

lemma sum_list_enumerate:
  "sum_list (map (\<lambda>(j, v). f j v) (enumerate 0 ys)) = (\<Sum>j<length ys. f j (ys ! j))"
proof -
  have "map (\<lambda>(j, v). f j v) (enumerate 0 ys) = map (\<lambda>j. f j (ys ! j)) [0..<length ys]"
    by (rule nth_equalityI) (simp_all add: nth_enumerate_eq)
  then show ?thesis
    by (simp add: interv_sum_list_conv_sum_set_nat atLeast0LessThan)
qed

lemma spec_magnitude_nonneg: "0 \<le> spec_magnitude ys k"
  by (simp add: spec_magnitude_def)

lemma fft_nth:
  assumes "k < length ys"
  shows "cmod (fft ys ! k) = spec_magnitude ys k"
  using assms
  by (simp add: fft_def Let_def spec_magnitude_def sum_list_enumerate)

text \<open>
  C9. For every time-domain curve of length \<open>N\<close>, \<open>abs(fft(...))\<close> is a curve of the same
  length \<open>N\<close> whose entry \<open>k\<close> is the magnitude \<open>|\<Sum>j. E(t_j) * exp(-2\<pi>i*j*k/N)|\<close>, so every
  entry is a non-negative real; so it is for the spectrum curve of \<open>update\<close>, taken of its
  time-domain curve.
\<close>

theorem spectrum_magnitude:
  "length (map cmod (fft ys)) = length ys
   \<and> (\<forall>k<length ys. map cmod (fft ys) ! k = spec_magnitude ys k \<and> 0 \<le> map cmod (fft ys) ! k)
   \<and> (\<exists>r. update p = Inr r
          \<and> length (ydata (curve3 r)) = length (ydata (curve4 r))
          \<and> (\<forall>k<length (ydata (curve4 r)).
                 ydata (curve3 r) ! k = spec_magnitude (ydata (curve4 r)) k
                 \<and> 0 \<le> ydata (curve3 r) ! k))"
proof -
  have len: "length (map cmod (fft zs)) = length zs" for zs
    by (simp add: fft_def Let_def)
  have ent: "\<forall>k<length zs. map cmod (fft zs) ! k = spec_magnitude zs k
                  \<and> 0 \<le> map cmod (fft zs) ! k" for zs
  proof (intro allI impI)
    fix k assume k: "k < length zs"
    then have "k < length (fft zs)" by (simp add: fft_def Let_def)
    then have "map cmod (fft zs) ! k = cmod (fft zs ! k)" by simp
    moreover have "0 \<le> cmod (fft zs ! k)" by (rule norm_ge_zero)
    ultimately show "map cmod (fft zs) ! k = spec_magnitude zs k \<and> 0 \<le> map cmod (fft zs) ! k"
      using fft_nth [OF k] by metis
  qed
  obtain r where r: "update p = Inr r" "curve4 r = Y (laser p (map Fin DetuningGrid))"
      "curve3 r = Y (map cmod (fft (laser p (map Fin DetuningGrid))))"
    using update_laser by blast
  have "update p = Inr r
          \<and> length (ydata (curve3 r)) = length (ydata (curve4 r))
          \<and> (\<forall>k<length (ydata (curve4 r)).
                 ydata (curve3 r) ! k = spec_magnitude (ydata (curve4 r)) k
                 \<and> 0 \<le> ydata (curve3 r) ! k)"
    using r len [of "laser p (map Fin DetuningGrid)"] ent [of "laser p (map Fin DetuningGrid)"]
    by (simp add: spec_magnitude_nonneg)
  then show ?thesis using len [of ys] ent [of ys] by blast
qed

theorem spectrum_magnitude_witness:
  "length (map cmod (fft [3, 4])) = 2
   \<and> map cmod (fft [3, 4]) ! 0 = 7 \<and> map cmod (fft [3, 4]) ! 1 = 1"
proof -
  have half_turn: "exp (- (complex_of_real pi * \<i>)) = - 1"
    by (simp add: exp_minus)
  have m0: "spec_magnitude [3, 4] 0 = 7"
    by (simp add: spec_magnitude_def lessThan_Suc)
  have m1: "spec_magnitude [3, 4] 1 = 1"
    by (simp add: spec_magnitude_def lessThan_Suc half_turn)
  have "(0::nat) < length [3, 4 :: real]" and "(1::nat) < length [3, 4 :: real]"
    by simp_all
  then show ?thesis
    using spectrum_magnitude [of "[3, 4]" scenario] m0 m1 by auto
qed


subsection \<open>The combined scheme\<close>

lemma absorption_params:
  "absorption (p\<lparr>w2 := a, c1 := b\<rparr>) val = absorption p val"
  by (simp add: absorption_def)

lemma FMerrorsig_params:
  "FMerrorsig (p\<lparr>w2 := a, c1 := b\<rparr>) m val = FMerrorsig p m val"
  by (simp add: FMerrorsig_def absorption_params)

text \<open>
  C2. Under the scheme CombinedFMAndTTFMS the first error curve is \<open>FMerrorsig\<close> computed
  with \<open>modFreq1 - modFreq2\<close> as the shift, and it is equal to the curve of an independent
  run of the scheme FrequencyModulation in which \<open>modFreq1 - modFreq2\<close> is substituted for
  modFreq1 (on the grid of \<open>update\<close>, and \<open>FMerrorsig\<close> agrees on every array). With the same
  parameters the scheme FrequencyModulation keeps the shift \<open>modFreq1\<close>: the shift changes in
  the combined scheme only.
\<close>

theorem combined_scheme_first_curve:
  assumes "c1 p = FM_and_TTFMS"
  shows "\<exists>r rFM rsub.
           update p = Inr r
         \<and> update (p\<lparr>c1 := Frequency_Modulation\<rparr>) = Inr rFM
         \<and> update (p\<lparr>w2 := modFreq1 p - modFreq2 p, c1 := Frequency_Modulation\<rparr>) = Inr rsub
         \<and> ydata (curve2 r) = FMerrorsig p (modFreq1 p - modFreq2 p) (map Fin DetuningGrid)
         \<and> curve2 r = curve2 rsub
         \<and> ydata (curve2 rFM) = FMerrorsig p (modFreq1 p) (map Fin DetuningGrid)
         \<and> (\<forall>val. FMerrorsig (p\<lparr>w2 := modFreq1 p - modFreq2 p, c1 := Frequency_Modulation\<rparr>)
                      (modFreq1 p - modFreq2 p) val
                    = FMerrorsig p (modFreq1 p - modFreq2 p) val)"
proof -
  let ?x1 = "linspace 0 10000 1000"
  let ?sub = "p\<lparr>w2 := modFreq1 p - modFreq2 p, c1 := Frequency_Modulation\<rparr>"
  let ?fm = "p\<lparr>c1 := Frequency_Modulation\<rparr>"
  obtain r where r: "update p = Inr r"
      "curve2 r = XY ?x1 (FMerrorsig p (w2 p - w3 p) (map Fin DetuningGrid))"
    using update_both [OF assms] by blast
  have "c1 ?sub = Frequency_Modulation" by simp
  from update_FM [OF this] obtain rsub where rsub: "update ?sub = Inr rsub"
      "curve2 rsub = XY ?x1 (FMerrorsig ?sub (w2 ?sub) (map Fin DetuningGrid))"
    by blast
  have "c1 ?fm = Frequency_Modulation" by simp
  from update_FM [OF this] obtain rFM where rFM: "update ?fm = Inr rFM"
      "curve2 rFM = XY ?x1 (FMerrorsig ?fm (w2 ?fm) (map Fin DetuningGrid))"
    by blast
  have fm: "FMerrorsig ?fm m val = FMerrorsig p m val" for m val
    by (simp add: FMerrorsig_def absorption_def)
  have a: "ydata (curve2 r) = FMerrorsig p (modFreq1 p - modFreq2 p) (map Fin DetuningGrid)"
    using r(2) by simp
  have b: "curve2 r = curve2 rsub"
    using r(2) rsub(2) by (simp add: FMerrorsig_params)
  have c: "ydata (curve2 rFM) = FMerrorsig p (modFreq1 p) (map Fin DetuningGrid)"
    using rFM(2) by (simp add: fm)
  have d: "\<forall>val. FMerrorsig ?sub (modFreq1 p - modFreq2 p) val
                    = FMerrorsig p (modFreq1 p - modFreq2 p) val"
    by (simp add: FMerrorsig_params)
  show ?thesis using r(1) rFM(1) rsub(1) a b c d by blast
qed

theorem combined_scheme_first_curve_witness:
  "c1 (scenario\<lparr>c1 := FM_and_TTFMS\<rparr>) = FM_and_TTFMS
   \<and> (\<exists>r rsub. update (scenario\<lparr>c1 := FM_and_TTFMS\<rparr>) = Inr r
         \<and> update (scenario\<lparr>w2 := 2\<rparr>) = Inr rsub
         \<and> curve2 r = curve2 rsub
         \<and> ydata (curve2 r) = FMerrorsig scenario 2 (map Fin DetuningGrid))"
proof -
  have s: "scenario\<lparr>c1 := FM_and_TTFMS, w2 := 2, c1 := Frequency_Modulation\<rparr> = scenario\<lparr>w2 := 2\<rparr>"
    by (simp add: scenario_def)
  have f: "FMerrorsig (scenario\<lparr>c1 := FM_and_TTFMS\<rparr>) m val = FMerrorsig scenario m val" for m val
    by (simp add: FMerrorsig_def absorption_def)
  show ?thesis
    using combined_scheme_first_curve [of "scenario\<lparr>c1 := FM_and_TTFMS\<rparr>"]
    by (auto simp add: s f) (auto simp add: scenario_def)
qed

subsection \<open>Zero line width\<close>

text \<open>
  C1 as stated, that every call with lineWidth = 0 fails with InvalidParameter and returns
  no curves, is false: with the parameters of the scenario and lineWidth 0, \<open>update\<close> does not
  fail, and the first sample of its absorption curve is the number 1.
\<close>

theorem zero_width_returns_curves:
  "update zero_width \<noteq> Inl InvalidParameter
   \<and> ydata (curve1 (projr (update zero_width))) ! 0 = Fin 1"
  by (simp add: update_def Let_def zero_width_def scenario_def linspace_def absorption_def
      np_square_def np_sub_def)

lemma absorption_zero_width:
  assumes "w1 s = 0"
  shows "absorption s (map Fin ws) = map (\<lambda>\<omega>. if w4 s + \<omega> = 0 then NaN else Fin 1) ws"
  using assms
  by (simp add: absorption_def Let_def comp_def np_square_def np_sub_def)

text \<open>
  C1, amended. For every call with lineWidth = 0, \<open>update\<close> raises no error and returns its
  curves: the absorption curve is 1 at every detuning with \<open>laserFreq + \<omega> \<noteq> 0\<close> (the
  quotient is \<open>-inf\<close>) and nan where \<open>laserFreq + \<omega> = 0\<close> (the quotient is \<open>0/0\<close>). Nothing is
  said of a negative lineWidth.
\<close>

theorem zero_width_no_error:
  assumes "lineWidth p = 0"
  shows "\<exists>r. update p = Inr r
           \<and> ydata (curve1 r)
               = map (\<lambda>\<omega>. if laserFreq p + \<omega> = 0 then NaN else Fin 1) DetuningGrid"
proof -
  obtain r where r: "update p = Inr r"
      "curve1 r = XY (linspace 0 10000 1000) (absorption p (map Fin DetuningGrid))"
    using update_curve1 by blast
  then have "ydata (curve1 r)
      = map (\<lambda>\<omega>. if laserFreq p + \<omega> = 0 then NaN else Fin 1) DetuningGrid"
    using assms by (simp add: absorption_zero_width)
  then show ?thesis using r(1) by blast
qed

theorem zero_width_no_error_witness:
  "lineWidth zero_width = 0
   \<and> (\<exists>r. update zero_width = Inr r
          \<and> ydata (curve1 r) = map (\<lambda>\<omega>. if 70 + \<omega> = 0 then NaN else Fin 1) DetuningGrid)"
  using zero_width_no_error [of zero_width]
  by (simp add: zero_width_def scenario_def)

end
